theory Spec2Isabelle
  imports Main
begin

section \<open>Animations of geomagnetic-station plots: the frame pipeline of animations.py\<close>

text \<open>
  The module \<^verbatim>\<open>spaceweather/visualisation/animations.py\<close> holds six functions
  (\<^verbatim>\<open>data_globe_gif\<close>, \<^verbatim>\<open>connections_globe_gif\<close>, \<^verbatim>\<open>lag_mat_gif_time\<close>,
  \<^verbatim>\<open>lag_network_gif\<close>, \<^verbatim>\<open>corr_thresh_gif\<close>, \<^verbatim>\<open>cca_ang_gif\<close>). Each one creates the
  output directories, checks the file name, renders one figure per index of an axis of
  the dataset, saves every figure as a png file, reopens the files and saves them as one
  gif file.

  The effects of the code are made explicit: a function takes the world (directories,
  files, standard output) and returns the world it leaves behind together with either
  the exception it raised or the value it returned. The plotting functions of
  \<^verbatim>\<open>spaceweather.visualisation.static\<close> and \<^verbatim>\<open>heatmaps\<close> are not part of the module;
  they are parameters of the model, and may raise.
\<close>

subsection \<open>Exceptions and return values\<close>

datatype 'e error =
    ValueError string
  | IndexError
  | AttributeError
  | FileExistsError
  | FileNotFoundError
  | CollaboratorError 'e

datatype retval = PyNone | PyStr string

text \<open>A call of an external collaborator: what it raises reaches the caller unchanged.\<close>

definition ext :: "'e + 'a \<Rightarrow> 'e error + 'a" where
  "ext r = (case r of Inl e \<Rightarrow> Inl (CollaboratorError e) | Inr a \<Rightarrow> Inr a)"

subsection \<open>The world: directories, files, standard output\<close>

type_synonym path = string

text \<open>
  A png file holds one image. A gif file holds its frames, the display duration of a
  frame and the loop count, as \<^verbatim>\<open>Image.save\<close> was given them.
\<close>

datatype 'img content = Png 'img | Gif "'img list" nat nat

record 'img world =
  dirs :: "path set"
  files :: "path \<rightharpoonup> 'img content"
  stdout :: "string list"

text \<open>\<^verbatim>\<open>os.path.exists\<close>: true of a directory and of a file.\<close>

definition os_path_exists :: "'img world \<Rightarrow> path \<Rightarrow> bool" where
  "os_path_exists w p = (p \<in> dirs w \<or> files w p \<noteq> None)"

text \<open>
  \<^verbatim>\<open>os.makedirs\<close> with its default \<^verbatim>\<open>exist_ok=False\<close>: raises \<^verbatim>\<open>FileExistsError\<close> when
  the target exists, creates it otherwise. Failures of the operating system itself
  (permissions, a full disk, an empty path) are outside this model of the file system.
\<close>

definition os_makedirs :: "'img world \<Rightarrow> path \<Rightarrow> 'e error + 'img world" where
  "os_makedirs w p =
     (if os_path_exists w p then Inl FileExistsError
      else Inr (w\<lparr>dirs := insert p (dirs w)\<rparr>))"

text \<open>\<^verbatim>\<open>fig.savefig(im_name)\<close>: writes the figure as a png file, replacing what was there.\<close>

definition savefig :: "'img world \<Rightarrow> path \<Rightarrow> 'img \<Rightarrow> 'img world" where
  "savefig w p fig = w\<lparr>files := (files w)(p \<mapsto> Png fig)\<rparr>"

text \<open>\<^verbatim>\<open>Image.open(n)\<close>: the content of the file, \<^verbatim>\<open>FileNotFoundError\<close> without one.\<close>

definition image_open :: "'img world \<Rightarrow> path \<Rightarrow> 'e error + 'img content" where
  "image_open w p = (case files w p of None \<Rightarrow> Inl FileNotFoundError | Some c \<Rightarrow> Inr c)"

fun frames_of :: "'img content \<Rightarrow> 'img list" where
  "frames_of (Png im) = [im]"
| "frames_of (Gif ims d l) = ims"

text \<open>
  \<^verbatim>\<open>first.save(p, save_all=True, append_images=rest, duration=d, loop=l)\<close>: one gif
  file with the frames of \<^verbatim>\<open>first\<close> followed by those of \<^verbatim>\<open>rest\<close>, in that order.
\<close>

definition image_save_all ::
  "'img world \<Rightarrow> 'img content \<Rightarrow> path \<Rightarrow> 'img content list \<Rightarrow> nat \<Rightarrow> nat \<Rightarrow> 'img world" where
  "image_save_all w first p rest d l =
     w\<lparr>files := (files w)(p \<mapsto> Gif (concat (map frames_of (first # rest))) d l)\<rparr>"

subsection \<open>Formatting an index: \<^verbatim>\<open>'%s' % i\<close>\<close>

definition digit_char :: "nat \<Rightarrow> char" where
  "digit_char d = char_of (48 + d)"

fun str_nat :: "nat \<Rightarrow> string" where
  "str_nat n =
     (if n < 10 then [digit_char n] else str_nat (n div 10) @ [digit_char (n mod 10)])"

declare str_nat.simps [simp del]

text \<open>\<^verbatim>\<open>im_filepath + '/%s.png' % i\<close> and \<^verbatim>\<open>filepath + '/%s.gif' % filename\<close>.\<close>

definition png_name :: "path \<Rightarrow> nat \<Rightarrow> path" where
  "png_name im_filepath i = im_filepath @ ''/'' @ str_nat i @ ''.png''"

definition gif_name :: "path \<Rightarrow> string \<Rightarrow> path" where
  "gif_name filepath filename = filepath @ ''/'' @ filename @ ''.gif''"

subsection \<open>The steps every function repeats\<close>

text \<open>
  Lines 62-68 (and 145-151, 220-226, 285-291, 351-357, 419-425, all alike):
  \<^verbatim>\<open>
  if not os.path.exists(filepath):
      os.makedirs(filepath)
  im_filepath = filepath + '/images_for_giffing'
  if not os.path.exists(im_filepath):
      os.makedirs(im_filepath)
  \<close>
\<close>

definition check_filepaths :: "'img world \<Rightarrow> path \<Rightarrow> 'img world \<times> ('e error + path)" where
  "check_filepaths w filepath =
     (case (if \<not> os_path_exists w filepath then os_makedirs w filepath else Inr w) of
        Inl e \<Rightarrow> (w, Inl e)
      | Inr w1 \<Rightarrow>
          (let im_filepath = filepath @ ''/images_for_giffing'' in
           case (if \<not> os_path_exists w1 im_filepath then os_makedirs w1 im_filepath
                 else Inr w1) of
             Inl e \<Rightarrow> (w1, Inl e)
           | Inr w2 \<Rightarrow> (w2, Inr im_filepath)))"

text \<open>
  Lines 70-75 (and 228-233, 293-298, 359-364, 427-432, all alike; the copy in
  \<^verbatim>\<open>connections_globe_gif\<close>, lines 153-159, differs and is written out there):
  \<^verbatim>\<open>
  if '.' in filename:
      if len(filename) > 4:
          filename = filename[:-4] # remove file extension
      else:
          raise ValueError('Error: please input filename without file extension')
  \<close>
\<close>

definition filename_message :: string where
  "filename_message = ''Error: please input filename without file extension''"

definition check_filename :: "string \<Rightarrow> 'e error + string" where
  "check_filename filename =
     (if CHR ''.'' \<in> set filename then
        (if length filename > 4 then Inr (take (length filename - 4) filename)
         else Inl (ValueError filename_message))
      else Inr filename)"

text \<open>
  The loop over the axis (lines 88-102 and its five copies). What differs between the
  functions is how the figure of index \<open>i\<close> is made; that is the argument \<open>plot\<close>.
  \<^verbatim>\<open>
  names = []
  for i in range(num_times):
      fig = ...
      im_name = im_filepath + '/%s.png' %i
      fig.savefig(im_name) # save image file
      names.append(im_name) # add name of image file to list
  \<close>
\<close>

fun save_frames ::
  "(nat \<Rightarrow> 'e error + 'img) \<Rightarrow> path \<Rightarrow> nat list \<Rightarrow> 'img world \<Rightarrow> path list
     \<Rightarrow> 'img world \<times> ('e error + path list)" where
  "save_frames plot im_filepath [] w names = (w, Inr names)"
| "save_frames plot im_filepath (i # rest) w names =
     (case plot i of
        Inl e \<Rightarrow> (w, Inl e)
      | Inr fig \<Rightarrow>
          (let im_name = png_name im_filepath i in
           save_frames plot im_filepath rest (savefig w im_name fig) (names @ [im_name])))"

text \<open>
  Lines 104-107:
  \<^verbatim>\<open>
  images = []
  for n in names:
      images.append(Image.open(n))
  \<close>
\<close>

fun open_images ::
  "'img world \<Rightarrow> path list \<Rightarrow> 'img content list \<Rightarrow> 'e error + 'img content list" where
  "open_images w [] images = Inr images"
| "open_images w (n # ns) images =
     (case image_open w n of
        Inl e \<Rightarrow> Inl e
      | Inr im \<Rightarrow> open_images w ns (images @ [im]))"

text \<open>
  Lines 109-113; \<^verbatim>\<open>images[0]\<close> raises \<^verbatim>\<open>IndexError\<close> on the empty list:
  \<^verbatim>\<open>
  images[0].save(filepath + '/%s.gif' %filename,
                 save_all = True,
                 append_images = images[1:],
                 duration = 100, loop = 0)
  \<close>
  The function ends there, so it returns \<^verbatim>\<open>None\<close>.
\<close>

definition make_gif ::
  "'img world \<Rightarrow> path list \<Rightarrow> path \<Rightarrow> string \<Rightarrow> 'img world \<times> ('e error + retval)" where
  "make_gif w names filepath filename =
     (case open_images w names [] of
        Inl e \<Rightarrow> (w, Inl e)
      | Inr images \<Rightarrow>
          (case images of
             [] \<Rightarrow> (w, Inl IndexError)
           | first # rest \<Rightarrow>
               (image_save_all w first (gif_name filepath filename) rest 100 0, Inr PyNone)))"

text \<open>The loop followed by the encoding, as in each of the six functions.\<close>

definition frames_then_gif ::
  "(nat \<Rightarrow> 'e error + 'img) \<Rightarrow> 'img world \<Rightarrow> path \<Rightarrow> path \<Rightarrow> string \<Rightarrow> nat
     \<Rightarrow> 'img world \<times> ('e error + retval)" where
  "frames_then_gif plot w filepath im_filepath filename num =
     (case save_frames plot im_filepath [0..<num] w [] of
        (w', Inl e) \<Rightarrow> (w', Inl e)
      | (w', Inr names) \<Rightarrow> make_gif w' names filepath filename)"

subsection \<open>Datasets\<close>

text \<open>
  An \<^verbatim>\<open>xarray.Dataset\<close> as far as the module reads it: the values of its named
  coordinates (\<^verbatim>\<open>ds.time.values\<close>), its named data variables, and positional indexing
  \<^verbatim>\<open>ds[dict(name = i)]\<close>. What the data variables hold is opaque.
\<close>

record ('v, 'd) dataset =
  coords :: "string \<rightharpoonup> 'v list"
  data_vars :: "string \<rightharpoonup> 'd"

text \<open>\<^verbatim>\<open>ds.<name>.values\<close>: \<^verbatim>\<open>AttributeError\<close> when the dataset has no such coordinate.\<close>

definition coord_values :: "('v, 'd) dataset \<Rightarrow> string \<Rightarrow> 'e error + 'v list" where
  "coord_values ds name =
     (case coords ds name of None \<Rightarrow> Inl AttributeError | Some vs \<Rightarrow> Inr vs)"

text \<open>A dataset with some of its axes fixed to a position.\<close>

datatype ('v, 'd) slice = Slice "('v, 'd) dataset" "(string \<times> nat) list"

definition missing_dim :: "('v, 'd) dataset \<Rightarrow> string \<times> nat \<Rightarrow> bool" where
  "missing_dim ds ki = (case coords ds (fst ki) of None \<Rightarrow> True | Some vs \<Rightarrow> False)"

definition out_of_bounds :: "('v, 'd) dataset \<Rightarrow> string \<times> nat \<Rightarrow> bool" where
  "out_of_bounds ds ki =
     (case coords ds (fst ki) of None \<Rightarrow> False | Some vs \<Rightarrow> length vs \<le> snd ki)"

text \<open>
  \<^verbatim>\<open>ds[dict(k1 = i1, ...)]\<close>, that is \<^verbatim>\<open>ds.isel\<close>: \<^verbatim>\<open>ValueError\<close> for a dimension the
  dataset does not have, \<^verbatim>\<open>IndexError\<close> for a position beyond the end of an axis.
\<close>

definition isel_message :: string where
  "isel_message = ''Dimensions do not exist''"

definition isel :: "('v, 'd) dataset \<Rightarrow> (string \<times> nat) list \<Rightarrow> 'e error + ('v, 'd) slice" where
  "isel ds indexers =
     (if list_ex (missing_dim ds) indexers then Inl (ValueError isel_message)
      else if list_ex (out_of_bounds ds) indexers then Inl IndexError
      else Inr (Slice ds indexers))"

text \<open>\<^verbatim>\<open>sl.<name>.values\<close> of a slice: the data variable, at the fixed positions.\<close>

fun slice_var ::
  "('v, 'd) slice \<Rightarrow> string \<Rightarrow> 'e error + ('d \<times> (string \<times> nat) list)" where
  "slice_var (Slice ds indexers) name =
     (case data_vars ds name of None \<Rightarrow> Inl AttributeError | Some d \<Rightarrow> Inr (d, indexers))"

text \<open>\<^verbatim>\<open>xs[i]\<close> for a position \<open>i \<ge> 0\<close>.\<close>

definition index_list :: "'a list \<Rightarrow> nat \<Rightarrow> 'e error + 'a" where
  "index_list xs i = (if i < length xs then Inr (xs ! i) else Inl IndexError)"

subsection \<open>The six functions\<close>

text \<open>
  Lines 78-79 of \<^verbatim>\<open>data_globe_gif\<close>:
  \<^verbatim>\<open>
  if list_of_stations is None:
      list_of_stations = ds.station.values
  \<close>
\<close>

definition default_stations ::
  "('v, 'd) dataset \<Rightarrow> 'v list option \<Rightarrow> 'e error + 'v list" where
  "default_stations ds list_of_stations =
     (case list_of_stations of
        None \<Rightarrow> coord_values ds ''station''
      | Some l \<Rightarrow> Inr l)"

text \<open>
  Lines 84-85 of \<^verbatim>\<open>data_globe_gif\<close> and 167-168 of \<^verbatim>\<open>connections_globe_gif\<close>:
  \<^verbatim>\<open>
  if ortho_trans is None:
      ortho_trans = svg.auto_ortho(list_of_stations)
  \<close>
\<close>

definition default_ortho ::
  "('v list \<Rightarrow> 'e + 'o) \<Rightarrow> 'v list \<Rightarrow> 'o option \<Rightarrow> 'e error + 'o" where
  "default_ortho auto_ortho list_of_stations ortho_trans =
     (case ortho_trans of
        None \<Rightarrow> ext (auto_ortho list_of_stations)
      | Some ot \<Rightarrow> Inr ot)"

text \<open>
  \<^verbatim>\<open>data_globe_gif(ds, filepath, filename, list_of_stations, list_of_components,
  ortho_trans, daynight, colour, **kwargs)\<close>, lines 25-113. The first two arguments of
  the model are \<^verbatim>\<open>svg.plot_data_globe\<close> and \<^verbatim>\<open>svg.auto_ortho\<close>.
\<close>

definition data_globe_gif ::
  "(('v, 'd) dataset \<Rightarrow> 'v list \<Rightarrow> 'c list \<Rightarrow> nat \<Rightarrow> 'o \<Rightarrow> bool \<Rightarrow> bool \<Rightarrow> 'k \<Rightarrow> 'e + 'img)
     \<Rightarrow> ('v list \<Rightarrow> 'e + 'o)
     \<Rightarrow> 'img world \<Rightarrow> ('v, 'd) dataset \<Rightarrow> path \<Rightarrow> string \<Rightarrow> 'v list option \<Rightarrow> 'c list
     \<Rightarrow> 'o option \<Rightarrow> bool \<Rightarrow> bool \<Rightarrow> 'k \<Rightarrow> 'img world \<times> ('e error + retval)" where
  "data_globe_gif plot_data_globe auto_ortho w ds filepath filename list_of_stations
       list_of_components ortho_trans daynight colour kwargs =
     (case check_filepaths w filepath of
        (w1, Inl e) \<Rightarrow> (w1, Inl e)
      | (w1, Inr im_filepath) \<Rightarrow>
     (case check_filename filename of
        Inl e \<Rightarrow> (w1, Inl e)
      | Inr filename1 \<Rightarrow>
     (case default_stations ds list_of_stations of
        Inl e \<Rightarrow> (w1, Inl e)
      | Inr list_of_stations1 \<Rightarrow>
     (case coord_values ds ''time'' of
        Inl e \<Rightarrow> (w1, Inl e)
      | Inr list_of_times \<Rightarrow>
     (let num_times = length list_of_times in
      case default_ortho auto_ortho list_of_stations1 ortho_trans of
        Inl e \<Rightarrow> (w1, Inl e)
      | Inr ortho_trans1 \<Rightarrow>
          frames_then_gif
            (\<lambda>i. ext (plot_data_globe ds list_of_stations1 list_of_components i
                         ortho_trans1 daynight colour kwargs))
            w1 filepath im_filepath filename1 num_times)))))"

text \<open>
  \<^verbatim>\<open>connections_globe_gif(adj_mat_ds, filepath, filename, ortho_trans, daynight,
  **kwargs)\<close>, lines 116-194. On a bad file name this function prints the message and
  returns it (lines 158-159). The first two arguments of the model are
  \<^verbatim>\<open>svg.plot_connections_globe\<close> and \<^verbatim>\<open>svg.auto_ortho\<close>.
\<close>

definition connections_globe_gif ::
  "(('d \<times> (string \<times> nat) list) \<Rightarrow> 'v list \<Rightarrow> 'v \<Rightarrow> 'o \<Rightarrow> bool \<Rightarrow> 'k \<Rightarrow> 'e + 'img)
     \<Rightarrow> ('v list \<Rightarrow> 'e + 'o)
     \<Rightarrow> 'img world \<Rightarrow> ('v, 'd) dataset \<Rightarrow> path \<Rightarrow> string \<Rightarrow> 'o option \<Rightarrow> bool \<Rightarrow> 'k
     \<Rightarrow> 'img world \<times> ('e error + retval)" where
  "connections_globe_gif plot_connections_globe auto_ortho w adj_mat_ds filepath filename
       ortho_trans daynight kwargs =
     (case check_filepaths w filepath of
        (w1, Inl e) \<Rightarrow> (w1, Inl e)
      | (w1, Inr im_filepath) \<Rightarrow>
     (if CHR ''.'' \<in> set filename \<and> \<not> length filename > 4 then
        (w1\<lparr>stdout := stdout w1 @ [filename_message]\<rparr>, Inr (PyStr filename_message))
      else
     (let filename1 =
            (if CHR ''.'' \<in> set filename then take (length filename - 4) filename
             else filename) in
      case coord_values adj_mat_ds ''first_st'' of
        Inl e \<Rightarrow> (w1, Inl e)
      | Inr list_of_stations \<Rightarrow>
     (case coord_values adj_mat_ds ''win_start'' of
        Inl e \<Rightarrow> (w1, Inl e)
      | Inr list_of_win_start \<Rightarrow>
     (let num_win = length list_of_win_start in
      case default_ortho auto_ortho list_of_stations ortho_trans of
        Inl e \<Rightarrow> (w1, Inl e)
      | Inr ortho_trans1 \<Rightarrow>
          frames_then_gif
            (\<lambda>i. case isel adj_mat_ds [(''win_start'', i)] of
                   Inl e \<Rightarrow> Inl e
                 | Inr sl \<Rightarrow>
                (case slice_var sl ''adj_coeffs'' of
                   Inl e \<Rightarrow> Inl e
                 | Inr adj_matrix \<Rightarrow>
                (case index_list list_of_win_start i of
                   Inl e \<Rightarrow> Inl e
                 | Inr time \<Rightarrow>
                     ext (plot_connections_globe adj_matrix list_of_stations time
                            ortho_trans1 daynight kwargs))))
            w1 filepath im_filepath filename1 num_win)))))"

text \<open>
  \<^verbatim>\<open>lag_mat_gif_time(lag_ds, filepath, filename, **kwargs)\<close>, lines 197-259. The first
  argument of the model is \<^verbatim>\<open>svh.plot_lag_mat_time\<close>.
\<close>

definition lag_mat_gif_time ::
  "(('v, 'd) slice \<Rightarrow> 'k \<Rightarrow> 'e + 'img)
     \<Rightarrow> 'img world \<Rightarrow> ('v, 'd) dataset \<Rightarrow> path \<Rightarrow> string \<Rightarrow> 'k
     \<Rightarrow> 'img world \<times> ('e error + retval)" where
  "lag_mat_gif_time plot_lag_mat_time w lag_ds filepath filename kwargs =
     (case check_filepaths w filepath of
        (w1, Inl e) \<Rightarrow> (w1, Inl e)
      | (w1, Inr im_filepath) \<Rightarrow>
     (case check_filename filename of
        Inl e \<Rightarrow> (w1, Inl e)
      | Inr filename1 \<Rightarrow>
     (case coord_values lag_ds ''time_win'' of
        Inl e \<Rightarrow> (w1, Inl e)
      | Inr time_wins \<Rightarrow>
     (let num_win = length time_wins in
      frames_then_gif
        (\<lambda>i. case isel lag_ds [(''time_win'', i), (''lag'', 0), (''win_start'', i)] of
               Inl e \<Rightarrow> Inl e
             | Inr lm \<Rightarrow> ext (plot_lag_mat_time lm kwargs))
        w1 filepath im_filepath filename1 num_win))))"

text \<open>
  \<^verbatim>\<open>lag_network_gif(adj_matrix_ds, filepath, filename, **kwargs)\<close>, lines 262-324. The
  first argument of the model is \<^verbatim>\<open>svg.plot_lag_network\<close>.
\<close>

definition lag_network_gif ::
  "(('v, 'd) slice \<Rightarrow> 'k \<Rightarrow> 'e + 'img)
     \<Rightarrow> 'img world \<Rightarrow> ('v, 'd) dataset \<Rightarrow> path \<Rightarrow> string \<Rightarrow> 'k
     \<Rightarrow> 'img world \<times> ('e error + retval)" where
  "lag_network_gif plot_lag_network w adj_matrix_ds filepath filename kwargs =
     (case check_filepaths w filepath of
        (w1, Inl e) \<Rightarrow> (w1, Inl e)
      | (w1, Inr im_filepath) \<Rightarrow>
     (case check_filename filename of
        Inl e \<Rightarrow> (w1, Inl e)
      | Inr filename1 \<Rightarrow>
     (case coord_values adj_matrix_ds ''win_start'' of
        Inl e \<Rightarrow> (w1, Inl e)
      | Inr w_sts \<Rightarrow>
     (let num_win = length w_sts in
      frames_then_gif
        (\<lambda>i. case isel adj_matrix_ds [(''win_start'', i)] of
               Inl e \<Rightarrow> Inl e
             | Inr am \<Rightarrow> ext (plot_lag_network am kwargs))
        w1 filepath im_filepath filename1 num_win))))"

text \<open>
  \<^verbatim>\<open>corr_thresh_gif(corr_thresh_ds, filepath, filename, **kwargs)\<close>, lines 327-390. The
  first argument of the model is \<^verbatim>\<open>svh.plot_corr_thresh\<close>.
\<close>

definition corr_thresh_gif ::
  "(('v, 'd) slice \<Rightarrow> 'k \<Rightarrow> 'e + 'img)
     \<Rightarrow> 'img world \<Rightarrow> ('v, 'd) dataset \<Rightarrow> path \<Rightarrow> string \<Rightarrow> 'k
     \<Rightarrow> 'img world \<times> ('e error + retval)" where
  "corr_thresh_gif plot_corr_thresh w corr_thresh_ds filepath filename kwargs =
     (case check_filepaths w filepath of
        (w1, Inl e) \<Rightarrow> (w1, Inl e)
      | (w1, Inr im_filepath) \<Rightarrow>
     (case check_filename filename of
        Inl e \<Rightarrow> (w1, Inl e)
      | Inr filename1 \<Rightarrow>
     (case coord_values corr_thresh_ds ''win_start'' of
        Inl e \<Rightarrow> (w1, Inl e)
      | Inr w_sts \<Rightarrow>
     (let num_win = length w_sts in
      frames_then_gif
        (\<lambda>i. case isel corr_thresh_ds [(''win_start'', i)] of
               Inl e \<Rightarrow> Inl e
             | Inr clm \<Rightarrow> ext (plot_corr_thresh clm kwargs))
        w1 filepath im_filepath filename1 num_win))))"

text \<open>
  \<^verbatim>\<open>cca_ang_gif(cca_ang_ds, a_b, filepath, filename, **kwargs)\<close>, lines 393-458. The
  first argument of the model is \<^verbatim>\<open>svh.plot_cca_ang\<close>.
\<close>

definition cca_ang_gif ::
  "(('v, 'd) slice \<Rightarrow> 'ab \<Rightarrow> 'k \<Rightarrow> 'e + 'img)
     \<Rightarrow> 'img world \<Rightarrow> ('v, 'd) dataset \<Rightarrow> 'ab \<Rightarrow> path \<Rightarrow> string \<Rightarrow> 'k
     \<Rightarrow> 'img world \<times> ('e error + retval)" where
  "cca_ang_gif plot_cca_ang w cca_ang_ds a_b filepath filename kwargs =
     (case check_filepaths w filepath of
        (w1, Inl e) \<Rightarrow> (w1, Inl e)
      | (w1, Inr im_filepath) \<Rightarrow>
     (case check_filename filename of
        Inl e \<Rightarrow> (w1, Inl e)
      | Inr filename1 \<Rightarrow>
     (case coord_values cca_ang_ds ''time'' of
        Inl e \<Rightarrow> (w1, Inl e)
      | Inr times1 \<Rightarrow>
     (let num_times = length times1 in
      frames_then_gif
        (\<lambda>i. case isel cca_ang_ds [(''time'', i)] of
               Inl e \<Rightarrow> Inl e
             | Inr cam \<Rightarrow> ext (plot_cca_ang cam a_b kwargs))
        w1 filepath im_filepath filename1 num_times))))"

subsection \<open>Notions used to state the properties\<close>


text \<open>The files after the frames \<open>xs\<close> were saved in \<open>d\<close>, frame \<open>i\<close> holding \<open>img i\<close>.\<close>

definition put_frames ::
  "path \<Rightarrow> (nat \<Rightarrow> 'img) \<Rightarrow> nat list \<Rightarrow> (path \<rightharpoonup> 'img content) \<Rightarrow> (path \<rightharpoonup> 'img content)" where
  "put_frames d img xs m = foldl (\<lambda>m i. m(png_name d i \<mapsto> Png (img i))) m xs"

text \<open>Creating a directory unless the path exists: one guarded \<^verbatim>\<open>os.makedirs\<close>.\<close>

definition ensure_dir :: "'img world \<Rightarrow> path \<Rightarrow> 'img world" where
  "ensure_dir w p = (if os_path_exists w p then w else w\<lparr>dirs := insert p (dirs w)\<rparr>)"

subsection \<open>Small concrete inputs\<close>

text \<open>An empty world, a dataset with two positions on each axis, and collaborators.\<close>

definition world0 :: "nat world" where
  "world0 = \<lparr>dirs = {}, files = Map.empty, stdout = []\<rparr>"

definition ds0 :: "(nat, unit) dataset" where
  "ds0 = \<lparr>coords = [''time'' \<mapsto> [10, 20], ''station'' \<mapsto> [1, 2, 3],
                      ''first_st'' \<mapsto> [1, 2, 3], ''win_start'' \<mapsto> [5, 6],
                      ''time_win'' \<mapsto> [5, 6], ''lag'' \<mapsto> [0]],
          data_vars = [''adj_coeffs'' \<mapsto> ()]\<rparr>"

definition plot_globe0 ::
  "(nat, unit) dataset \<Rightarrow> nat list \<Rightarrow> char list \<Rightarrow> nat \<Rightarrow> nat \<Rightarrow> bool \<Rightarrow> bool \<Rightarrow> unit
     \<Rightarrow> nat + nat" where
  "plot_globe0 ds sts comps i ort dn col kw = Inr (100 + i)"

definition auto_ortho0 :: "nat list \<Rightarrow> nat + nat" where
  "auto_ortho0 sts = Inr (length sts)"

definition run0 :: "nat world \<times> (nat error + retval)" where
  "run0 = data_globe_gif plot_globe0 auto_ortho0 world0 ds0 ''data_gif'' ''globe_data''
            None ''NE'' None True False ()"


definition ds_empty :: "(nat, unit) dataset" where
  "ds_empty = \<lparr>coords = [''time'' \<mapsto> [], ''station'' \<mapsto> [1, 2]],
               data_vars = Map.empty\<rparr>"



definition run_empty :: "nat world \<times> (nat error + retval)" where
  "run_empty = data_globe_gif plot_globe0 auto_ortho0 world0 ds_empty ''data_gif''
                 ''globe_data'' None ''NE'' None True False ()"

text \<open>Collaborators and runs of the five other functions on the same dataset.\<close>

definition plot_slice0 :: "(nat, unit) slice \<Rightarrow> unit \<Rightarrow> nat + nat" where
  "plot_slice0 sl kw = (case sl of Slice ds ix \<Rightarrow> Inr (200 + sum_list (map snd ix)))"

definition plot_cca0 :: "(nat, unit) slice \<Rightarrow> char \<Rightarrow> unit \<Rightarrow> nat + nat" where
  "plot_cca0 sl a_b kw = (case sl of Slice ds ix \<Rightarrow> Inr (400 + sum_list (map snd ix)))"

definition plot_conn0 ::
  "unit \<times> (string \<times> nat) list \<Rightarrow> nat list \<Rightarrow> nat \<Rightarrow> nat \<Rightarrow> bool \<Rightarrow> unit \<Rightarrow> nat + nat" where
  "plot_conn0 adj_matrix sts time ort dn kw = Inr (300 + time)"

definition run_conn0 :: "nat world \<times> (nat error + retval)" where
  "run_conn0 = connections_globe_gif plot_conn0 auto_ortho0 world0 ds0 ''connections_gif''
                 ''globe_conn'' None True ()"

definition run_lag_mat0 :: "nat world \<times> (nat error + retval)" where
  "run_lag_mat0 = lag_mat_gif_time plot_slice0 world0 ds0 ''lag_mat_gif'' ''lag_mat'' ()"

definition run_lag_network0 :: "nat world \<times> (nat error + retval)" where
  "run_lag_network0 =
     lag_network_gif plot_slice0 world0 ds0 ''lag_network_gif'' ''lag_network'' ()"

definition run_corr_thresh0 :: "nat world \<times> (nat error + retval)" where
  "run_corr_thresh0 =
     corr_thresh_gif plot_slice0 world0 ds0 ''corr_thresh_gif'' ''corr_thresh'' ()"

definition run_cca_ang0 :: "nat world \<times> (nat error + retval)" where
  "run_cca_ang0 = cca_ang_gif plot_cca0 world0 ds0 CHR ''a'' ''cca_ang_gif'' ''cca_ang'' ()"

section \<open>Properties\<close>

subsection \<open>File names\<close>







subsection \<open>The loop and the encoding\<close>

lemma put_frames_Nil [simp]: "put_frames d img [] m = m"
  by (simp add: put_frames_def)

lemma put_frames_Cons [simp]:
  "put_frames d img (i # xs) m = put_frames d img xs (m(png_name d i \<mapsto> Png (img i)))"
  by (simp add: put_frames_def)

lemma put_frames_append [simp]:
  "put_frames d img (xs @ ys) m = put_frames d img ys (put_frames d img xs m)"
  by (simp add: put_frames_def)

lemma put_frames_other:
  "p \<notin> png_name d ` set xs \<Longrightarrow> put_frames d img xs m p = m p"
  by (induction xs arbitrary: m) auto








lemma make_gif_empty: "make_gif w [] filepath filename = (w, Inl IndexError)"
  by (simp add: make_gif_def)




lemma frames_then_gif_zero:
  "frames_then_gif plot w filepath d filename 0 = (w, Inl IndexError)"
  by (simp add: frames_then_gif_def make_gif_empty)


subsection \<open>The output directories\<close>

lemma check_filepaths_eq:
  "check_filepaths w fp =
     (ensure_dir (ensure_dir w fp) (fp @ ''/images_for_giffing''), Inr (fp @ ''/images_for_giffing''))"
  by (simp add: check_filepaths_def ensure_dir_def os_makedirs_def Let_def)

lemma files_ensure_dir [simp]: "files (ensure_dir w p) = files w"
  by (simp add: ensure_dir_def)

lemma stdout_ensure_dir [simp]: "stdout (ensure_dir w p) = stdout w"
  by (simp add: ensure_dir_def)




subsection \<open>The file name\<close>

lemma check_filename_bad:
  "CHR ''.'' \<in> set filename \<Longrightarrow> length filename \<le> 4 \<Longrightarrow>
   check_filename filename = Inl (ValueError filename_message)"
  by (simp add: check_filename_def)

lemma bad_filename_raises:
  assumes "CHR ''.'' \<in> set filename" and "length filename \<le> 4"
  shows "data_globe_gif p1 auto_ortho w ds filepath filename sts comps ot dn col kw =
           (fst (check_filepaths w filepath), Inl (ValueError filename_message))"
    and "lag_mat_gif_time p2 w ds filepath filename kw =
           (fst (check_filepaths w filepath), Inl (ValueError filename_message))"
    and "lag_network_gif p3 w ds filepath filename kw =
           (fst (check_filepaths w filepath), Inl (ValueError filename_message))"
    and "corr_thresh_gif p4 w ds filepath filename kw =
           (fst (check_filepaths w filepath), Inl (ValueError filename_message))"
    and "cca_ang_gif p5 w ds a_b filepath filename kw =
           (fst (check_filepaths w filepath), Inl (ValueError filename_message))"
  using assms
  by (simp_all add: data_globe_gif_def lag_mat_gif_time_def lag_network_gif_def
        corr_thresh_gif_def cca_ang_gif_def check_filepaths_eq check_filename_bad)

text \<open>
  C2. A file name that contains a dot and has at most four characters makes five of the
  functions raise \<^verbatim>\<open>ValueError\<close> (lemma \<open>bad_filename_raises\<close>). At the file name
  \<^verbatim>\<open>'.gif'\<close>, \<^verbatim>\<open>connections_globe_gif\<close> raises nothing: it prints the message and
  returns it as a string, where \<^verbatim>\<open>data_globe_gif\<close> raises. No file is written.
\<close>

theorem C2_connections_globe_gif_returns_message:
  "snd (connections_globe_gif plot auto_ortho w ds ''connections_gif'' ''.gif'' ot dn kw)
     = Inr (PyStr filename_message)
   \<and> stdout (fst (connections_globe_gif plot auto_ortho w ds ''connections_gif'' ''.gif''
                  ot dn kw)) = stdout w @ [filename_message]
   \<and> files (fst (connections_globe_gif plot auto_ortho w ds ''connections_gif'' ''.gif''
                  ot dn kw)) = files w
   \<and> snd (data_globe_gif plot' auto_ortho w ds ''data_gif'' ''.gif'' sts comps ot dn col kw)
     = Inl (ValueError filename_message)"
  by (simp add: connections_globe_gif_def data_globe_gif_def check_filepaths_eq
        check_filename_def)

subsection \<open>\<^verbatim>\<open>data_globe_gif\<close>\<close>

lemma coord_values_Some: "coords ds name = Some vs \<Longrightarrow> coord_values ds name = Inr vs"
  by (simp add: coord_values_def)

lemma coord_values_Inr: "coord_values ds name = Inr vs \<Longrightarrow> coords ds name = Some vs"
  by (simp add: coord_values_def split: option.splits)

lemma data_globe_gif_eq:
  fixes plot :: "('v, 'd) dataset \<Rightarrow> 'v list \<Rightarrow> 'c list \<Rightarrow> nat \<Rightarrow> 'o \<Rightarrow> bool \<Rightarrow> bool \<Rightarrow> 'k \<Rightarrow> 'e + 'img"
  assumes "check_filename filename = (Inr base :: 'e error + string)"
    and "default_stations ds los = (Inr sts :: 'e error + 'v list)"
    and "coords ds ''time'' = Some tms"
    and "default_ortho auto_ortho sts ot = Inr ort"
  shows "data_globe_gif plot auto_ortho w ds filepath filename los comps ot dn col kw =
           frames_then_gif (\<lambda>i. ext (plot ds sts comps i ort dn col kw))
             (ensure_dir (ensure_dir w filepath) (filepath @ ''/images_for_giffing''))
             filepath (filepath @ ''/images_for_giffing'') base (length tms)"
  using assms by (simp add: data_globe_gif_def check_filepaths_eq coord_values_Some)



lemma ext_simps [simp]: "ext (Inr y) = Inr y" "ext (Inl e) = Inl (CollaboratorError e)"
  by (simp_all add: ext_def)


lemma put_frames_outside:
  "p \<notin> png_name d ` {..<n} \<Longrightarrow> put_frames d img [0..<n] m p = m p"
  by (rule put_frames_other) (simp add: lessThan_atLeast0)

lemma png_name_spelled:
  "png_name (filepath @ ''/images_for_giffing'') i =
     filepath @ ''/images_for_giffing/'' @ str_nat i @ ''.png''"
  by (simp add: png_name_def)


lemma run0_snd: "snd run0 = Inr PyNone"
  by (simp add: run0_def data_globe_gif_def check_filepaths_eq check_filename_def default_stations_def
      default_ortho_def coord_values_def ds0_def plot_globe0_def auto_ortho0_def
      frames_then_gif_def make_gif_def image_open_def savefig_def png_name_def
      str_nat.simps Let_def)







text \<open>
  C4. When the time axis is empty, \<^verbatim>\<open>data_globe_gif\<close> fails in the encoding step:
  \<^verbatim>\<open>images[0]\<close> raises \<^verbatim>\<open>IndexError\<close> on the empty list of frames, which is the
  zero-frame error of this code, and no file is written.
\<close>

theorem C4_data_globe_gif_empty_axis:
  fixes plot :: "('v, 'd) dataset \<Rightarrow> 'v list \<Rightarrow> 'c list \<Rightarrow> nat \<Rightarrow> 'o \<Rightarrow> bool \<Rightarrow> bool \<Rightarrow> 'k \<Rightarrow> 'e + 'img"
  assumes name: "check_filename filename = (Inr base :: 'e error + string)"
    and sts: "default_stations ds los = (Inr sts :: 'e error + 'v list)"
    and axis: "coords ds ''time'' = Some []"
    and ort: "default_ortho auto_ortho sts ot = Inr ort"
  shows "snd (data_globe_gif plot auto_ortho w ds filepath filename los comps ot dn col kw) =
           Inl IndexError \<and>
         files (fst (data_globe_gif plot auto_ortho w ds filepath filename los comps ot dn
                       col kw)) = files w \<and>
         make_gif w [] filepath base = (w, Inl (IndexError :: 'e error))"
proof -
  have "data_globe_gif plot auto_ortho w ds filepath filename los comps ot dn col kw =
          frames_then_gif (\<lambda>i. ext (plot ds sts comps i ort dn col kw))
            (ensure_dir (ensure_dir w filepath) (filepath @ ''/images_for_giffing''))
            filepath (filepath @ ''/images_for_giffing'') base (length ([] :: 'v list))"
    by (rule data_globe_gif_eq [OF name sts axis ort])
  then show ?thesis by (simp add: frames_then_gif_zero make_gif_empty)
qed






subsection \<open>Running twice\<close>

lemma put_frames_upt_cases:
  "put_frames d img [0..<n] m p =
     (if p \<in> png_name d ` {..<n} then put_frames d img [0..<n] m p else m p)"
  by (simp add: put_frames_outside)





lemma im_filepath_neq: "filepath @ ''/images_for_giffing'' \<noteq> filepath"
  by simp


subsection \<open>The properties at concrete inputs\<close>

lemma name0: "check_filename ''globe_data'' = (Inr ''globe_data'' :: nat error + string)"
  by (simp add: check_filename_def)


theorem C4_data_globe_gif_empty_axis_witness:
  "coords ds_empty ''time'' = Some [] \<and> snd run_empty = Inl IndexError \<and>
   files (fst run_empty) = Map.empty"
proof -
  have sts: "default_stations ds_empty None = (Inr [1, 2] :: nat error + nat list)"
    by (simp add: default_stations_def coord_values_def ds_empty_def)
  have axis: "coords ds_empty ''time'' = Some []" by (simp add: ds_empty_def)
  have ort: "default_ortho auto_ortho0 [1, 2] None = Inr 2"
    by (simp add: default_ortho_def auto_ortho0_def)
  from C4_data_globe_gif_empty_axis [OF name0 sts axis ort, where plot = plot_globe0
      and w = world0 and filepath = "''data_gif''" and comps = "''NE''" and dn = True
      and col = False and kw = "()"] axis
  show ?thesis by (simp add: run_empty_def world0_def)
qed




subsection \<open>What any of the six functions can write and return\<close>

lemma save_frames_effect:
  "save_frames plot d xs w names = (w', res) \<Longrightarrow>
   dirs w' = dirs w \<and> stdout w' = stdout w \<and>
   (\<forall>p. files w' p = files w p \<or> (\<exists>im. files w' p = Some (Png im)))"
proof (induction xs arbitrary: w names)
  case Nil
  then show ?case by auto
next
  case (Cons i xs)
  show ?case
  proof (cases "plot i")
    case (Inl e)
    with Cons.prems show ?thesis by auto
  next
    case (Inr fig)
    let ?w1 = "savefig w (png_name d i) fig"
    from Cons.prems Inr have
      "save_frames plot d xs ?w1 (names @ [png_name d i]) = (w', res)"
      by (simp add: Let_def)
    from Cons.IH [OF this] have
      ih: "dirs w' = dirs ?w1" "stdout w' = stdout ?w1"
        "\<forall>p. files w' p = files ?w1 p \<or> (\<exists>im. files w' p = Some (Png im))"
      by simp_all
    have "files w' p = files w p \<or> (\<exists>im. files w' p = Some (Png im))" for p
      using ih(3) [rule_format, of p] by (cases "p = png_name d i") (auto simp: savefig_def)
    with ih(1,2) show ?thesis by (simp add: savefig_def)
  qed
qed

lemma make_gif_effect:
  "make_gif w names fp fn = (w', res) \<Longrightarrow>
   dirs w' = dirs w \<and> stdout w' = stdout w \<and>
   (\<forall>p. files w' p = files w p \<or> (\<exists>fr. files w' p = Some (Gif fr 100 0))) \<and>
   (\<forall>r. res = Inr r \<longrightarrow> r = PyNone)"
  by (auto simp: make_gif_def image_save_all_def split: sum.splits list.splits)

lemma frames_then_gif_effect:
  assumes "frames_then_gif plot w fp d fn n = (w', res)"
  shows "dirs w' = dirs w \<and> stdout w' = stdout w \<and>
         (\<forall>p. files w' p = files w p \<or> (\<exists>im. files w' p = Some (Png im)) \<or>
              (\<exists>fr. files w' p = Some (Gif fr 100 0))) \<and>
         (\<forall>r. res = Inr r \<longrightarrow> r = PyNone)"
proof (cases "save_frames plot d [0..<n] w []")
  case (Pair w1 r1)
  note sf = save_frames_effect [OF Pair]
  show ?thesis
  proof (cases r1)
    case (Inl e)
    with Pair assms have "w' = w1" "res = Inl e" by (simp_all add: frames_then_gif_def)
    with sf show ?thesis by auto
  next
    case (Inr ns)
    with Pair assms have "make_gif w1 ns fp fn = (w', res)"
      by (simp add: frames_then_gif_def)
    note mg = make_gif_effect [OF this]
    have "files w' p = files w p \<or> (\<exists>im. files w' p = Some (Png im)) \<or>
        (\<exists>fr. files w' p = Some (Gif fr 100 0))" for p
      using mg sf by metis
    with mg sf show ?thesis by simp
  qed
qed


lemma shape_returns_None:
  fixes X :: "'img world \<times> ('e error + retval)"
  assumes shape: "(\<exists>e. X = (W1, Inl e)) \<or>
      (\<exists>(P :: nat \<Rightarrow> 'e error + 'img) base n. X = frames_then_gif P W1 fp d base n)"
    and X: "X = (w', Inr r)"
  shows "r = PyNone"
  using shape
proof
  assume "\<exists>e. X = (W1, Inl e)"
  with X show ?thesis by auto
next
  assume "\<exists>(P :: nat \<Rightarrow> 'e error + 'img) base n. X = frames_then_gif P W1 fp d base n"
  then obtain P :: "nat \<Rightarrow> 'e error + 'img" and base n
    where "frames_then_gif P W1 fp d base n = (w', Inr r)" using X by auto
  from frames_then_gif_effect [OF this] show ?thesis by blast
qed

lemma data_globe_gif_shape:
  "(\<exists>e. data_globe_gif plot auto_ortho w ds filepath filename los comps ot dn col kw =
          (ensure_dir (ensure_dir w filepath) (filepath @ ''/images_for_giffing''), Inl e)) \<or>
   (\<exists>P base n. data_globe_gif plot auto_ortho w ds filepath filename los comps ot dn col kw =
          frames_then_gif P
            (ensure_dir (ensure_dir w filepath) (filepath @ ''/images_for_giffing''))
            filepath (filepath @ ''/images_for_giffing'') base n)"
  by (simp add: data_globe_gif_def check_filepaths_eq Let_def split: sum.splits) blast

lemma lag_mat_gif_time_shape:
  "(\<exists>e. lag_mat_gif_time plot w ds filepath filename kw =
          (ensure_dir (ensure_dir w filepath) (filepath @ ''/images_for_giffing''), Inl e)) \<or>
   (\<exists>P base n. lag_mat_gif_time plot w ds filepath filename kw =
          frames_then_gif P
            (ensure_dir (ensure_dir w filepath) (filepath @ ''/images_for_giffing''))
            filepath (filepath @ ''/images_for_giffing'') base n)"
  by (simp add: lag_mat_gif_time_def check_filepaths_eq Let_def split: sum.splits) blast

lemma lag_network_gif_shape:
  "(\<exists>e. lag_network_gif plot w ds filepath filename kw =
          (ensure_dir (ensure_dir w filepath) (filepath @ ''/images_for_giffing''), Inl e)) \<or>
   (\<exists>P base n. lag_network_gif plot w ds filepath filename kw =
          frames_then_gif P
            (ensure_dir (ensure_dir w filepath) (filepath @ ''/images_for_giffing''))
            filepath (filepath @ ''/images_for_giffing'') base n)"
  by (simp add: lag_network_gif_def check_filepaths_eq Let_def split: sum.splits) blast

lemma corr_thresh_gif_shape:
  "(\<exists>e. corr_thresh_gif plot w ds filepath filename kw =
          (ensure_dir (ensure_dir w filepath) (filepath @ ''/images_for_giffing''), Inl e)) \<or>
   (\<exists>P base n. corr_thresh_gif plot w ds filepath filename kw =
          frames_then_gif P
            (ensure_dir (ensure_dir w filepath) (filepath @ ''/images_for_giffing''))
            filepath (filepath @ ''/images_for_giffing'') base n)"
  by (simp add: corr_thresh_gif_def check_filepaths_eq Let_def split: sum.splits) blast

lemma cca_ang_gif_shape:
  "(\<exists>e. cca_ang_gif plot w ds a_b filepath filename kw =
          (ensure_dir (ensure_dir w filepath) (filepath @ ''/images_for_giffing''), Inl e)) \<or>
   (\<exists>P base n. cca_ang_gif plot w ds a_b filepath filename kw =
          frames_then_gif P
            (ensure_dir (ensure_dir w filepath) (filepath @ ''/images_for_giffing''))
            filepath (filepath @ ''/images_for_giffing'') base n)"
  by (simp add: cca_ang_gif_def check_filepaths_eq Let_def split: sum.splits) blast

lemma connections_globe_gif_shape:
  "(CHR ''.'' \<in> set filename \<and> length filename \<le> 4 \<and>
    connections_globe_gif plot auto_ortho w ds filepath filename ot dn kw =
      ((ensure_dir (ensure_dir w filepath) (filepath @ ''/images_for_giffing''))
         \<lparr>stdout := stdout w @ [filename_message]\<rparr>, Inr (PyStr filename_message))) \<or>
   (\<exists>e. connections_globe_gif plot auto_ortho w ds filepath filename ot dn kw =
          (ensure_dir (ensure_dir w filepath) (filepath @ ''/images_for_giffing''), Inl e)) \<or>
   (\<exists>P base n. connections_globe_gif plot auto_ortho w ds filepath filename ot dn kw =
          frames_then_gif P
            (ensure_dir (ensure_dir w filepath) (filepath @ ''/images_for_giffing''))
            filepath (filepath @ ''/images_for_giffing'') base n)"
  by (simp add: connections_globe_gif_def check_filepaths_eq Let_def split: sum.splits) blast



text \<open>
  C10. A run of one of the six functions that completes returns \<^verbatim>\<open>None\<close>; for
  \<^verbatim>\<open>connections_globe_gif\<close> this is said of a file name that passes the check, since
  on a rejected file name that function returns its message instead of raising.
\<close>

theorem C10_entry_points_return_None:
  fixes p1 :: "('v, 'd) dataset \<Rightarrow> 'v list \<Rightarrow> 'c list \<Rightarrow> nat \<Rightarrow> 'o \<Rightarrow> bool \<Rightarrow> bool \<Rightarrow> 'k \<Rightarrow> 'e + 'img"
    and p2 :: "('d \<times> (string \<times> nat) list) \<Rightarrow> 'v list \<Rightarrow> 'v \<Rightarrow> 'o \<Rightarrow> bool \<Rightarrow> 'k \<Rightarrow> 'e + 'img"
    and p3 p4 p5 :: "('v, 'd) slice \<Rightarrow> 'k \<Rightarrow> 'e + 'img"
    and p6 :: "('v, 'd) slice \<Rightarrow> 'ab \<Rightarrow> 'k \<Rightarrow> 'e + 'img"
  shows "(data_globe_gif p1 auto_ortho w ds filepath filename los comps ot dn col kw =
            (w', Inr r) \<longrightarrow> r = PyNone)
       \<and> ((CHR ''.'' \<in> set filename \<longrightarrow> 4 < length filename) \<longrightarrow>
          connections_globe_gif p2 auto_ortho w ds filepath filename ot dn kw =
            (w', Inr r) \<longrightarrow> r = PyNone)
       \<and> (lag_mat_gif_time p3 w ds filepath filename kw = (w', Inr r) \<longrightarrow> r = PyNone)
       \<and> (lag_network_gif p4 w ds filepath filename kw = (w', Inr r) \<longrightarrow> r = PyNone)
       \<and> (corr_thresh_gif p5 w ds filepath filename kw = (w', Inr r) \<longrightarrow> r = PyNone)
       \<and> (cca_ang_gif p6 w ds a_b filepath filename kw = (w', Inr r) \<longrightarrow> r = PyNone)"
proof (intro conjI impI)
  let ?W1 = "ensure_dir (ensure_dir w filepath) (filepath @ ''/images_for_giffing'')"
  {
    assume "data_globe_gif p1 auto_ortho w ds filepath filename los comps ot dn col kw =
        (w', Inr r)"
    from shape_returns_None [OF data_globe_gif_shape this] show "r = PyNone" .
  }
  {
    assume "lag_mat_gif_time p3 w ds filepath filename kw = (w', Inr r)"
    from shape_returns_None [OF lag_mat_gif_time_shape this] show "r = PyNone" .
  }
  {
    assume "lag_network_gif p4 w ds filepath filename kw = (w', Inr r)"
    from shape_returns_None [OF lag_network_gif_shape this] show "r = PyNone" .
  }
  {
    assume "corr_thresh_gif p5 w ds filepath filename kw = (w', Inr r)"
    from shape_returns_None [OF corr_thresh_gif_shape this] show "r = PyNone" .
  }
  {
    assume "cca_ang_gif p6 w ds a_b filepath filename kw = (w', Inr r)"
    from shape_returns_None [OF cca_ang_gif_shape this] show "r = PyNone" .
  }
  {
    assume name: "CHR ''.'' \<in> set filename \<longrightarrow> 4 < length filename"
      and run: "connections_globe_gif p2 auto_ortho w ds filepath filename ot dn kw =
        (w', Inr r)"
    show "r = PyNone"
      using connections_globe_gif_shape [of filename p2 auto_ortho w ds filepath ot dn kw]
    proof (elim disjE conjE)
      assume "CHR ''.'' \<in> set filename" "length filename \<le> 4"
      with name show ?thesis by simp
    next
      assume "\<exists>e. connections_globe_gif p2 auto_ortho w ds filepath filename ot dn kw =
          (?W1, Inl e)"
      with run show ?thesis by auto
    next
      assume "\<exists>P base n. connections_globe_gif p2 auto_ortho w ds filepath filename ot dn kw =
          frames_then_gif P ?W1 filepath (filepath @ ''/images_for_giffing'') base n"
      then have "(\<exists>e. connections_globe_gif p2 auto_ortho w ds filepath filename ot dn kw =
          (?W1, Inl e)) \<or> (\<exists>P base n.
            connections_globe_gif p2 auto_ortho w ds filepath filename ot dn kw =
            frames_then_gif P ?W1 filepath (filepath @ ''/images_for_giffing'') base n)"
        by (rule disjI2)
      from shape_returns_None [OF this run] show ?thesis .
    qed
  }
qed

subsection \<open>Runs of the six functions at concrete inputs\<close>

lemmas eval_defs =
  check_filepaths_eq check_filename_def default_stations_def default_ortho_def
  coord_values_def ds0_def plot_globe0_def auto_ortho0_def plot_slice0_def plot_cca0_def
  plot_conn0_def frames_then_gif_def make_gif_def image_open_def savefig_def png_name_def
  gif_name_def str_nat.simps Let_def image_save_all_def isel_def missing_dim_def
  out_of_bounds_def index_list_def digit_char_def


lemma run_conn0_eval:
  "snd run_conn0 = Inr PyNone \<and>
   files (fst run_conn0) (gif_name ''connections_gif'' ''globe_conn'') =
     Some (Gif [305, 306] 100 0)"
  by (simp add: run_conn0_def connections_globe_gif_def eval_defs)

lemma run_lag_mat0_eval:
  "snd run_lag_mat0 = Inr PyNone \<and>
   files (fst run_lag_mat0) (gif_name ''lag_mat_gif'' ''lag_mat'') =
     Some (Gif [200, 202] 100 0)"
  by (simp add: run_lag_mat0_def lag_mat_gif_time_def eval_defs)

lemma run_lag_network0_eval:
  "snd run_lag_network0 = Inr PyNone \<and>
   files (fst run_lag_network0) (gif_name ''lag_network_gif'' ''lag_network'') =
     Some (Gif [200, 201] 100 0)"
  by (simp add: run_lag_network0_def lag_network_gif_def eval_defs)

lemma run_corr_thresh0_eval:
  "snd run_corr_thresh0 = Inr PyNone \<and>
   files (fst run_corr_thresh0) (gif_name ''corr_thresh_gif'' ''corr_thresh'') =
     Some (Gif [200, 201] 100 0)"
  by (simp add: run_corr_thresh0_def corr_thresh_gif_def eval_defs)

lemma run_cca_ang0_eval:
  "snd run_cca_ang0 = Inr PyNone \<and>
   files (fst run_cca_ang0) (gif_name ''cca_ang_gif'' ''cca_ang'') =
     Some (Gif [400, 401] 100 0)"
  by (simp add: run_cca_ang0_def cca_ang_gif_def eval_defs)


theorem C10_entry_points_return_None_witness:
  "snd run0 = Inr PyNone \<and> snd run_conn0 = Inr PyNone \<and> snd run_lag_mat0 = Inr PyNone \<and>
   snd run_lag_network0 = Inr PyNone \<and> snd run_corr_thresh0 = Inr PyNone \<and>
   snd run_cca_ang0 = Inr PyNone"
proof -
  note inst = C10_entry_points_return_None [where w = world0 and ds = ds0]
  have 1: "snd run0 = Inr PyNone"
  proof -
    from run0_snd obtain r where r: "snd run0 = Inr r" by simp
    then have "data_globe_gif plot_globe0 auto_ortho0 world0 ds0 ''data_gif'' ''globe_data''
        None ''NE'' None True False () = (fst run0, Inr r)"
      by (simp add: run0_def [symmetric] prod_eq_iff)
    from inst [THEN conjunct1, rule_format, OF this] r show ?thesis by simp
  qed
  have 2: "snd run_conn0 = Inr PyNone"
  proof -
    from run_conn0_eval obtain r where r: "snd run_conn0 = Inr r" by simp
    then have run: "connections_globe_gif plot_conn0 auto_ortho0 world0 ds0
        ''connections_gif'' ''globe_conn'' None True () = (fst run_conn0, Inr r)"
      by (simp add: run_conn0_def [symmetric] prod_eq_iff)
    have name: "CHR ''.'' \<in> set ''globe_conn'' \<Longrightarrow> 4 < length ''globe_conn''" by simp
    from inst [THEN conjunct2, THEN conjunct1, rule_format, OF name run] r
    show ?thesis by simp
  qed
  have 3: "snd run_lag_mat0 = Inr PyNone"
  proof -
    from run_lag_mat0_eval obtain r where r: "snd run_lag_mat0 = Inr r" by simp
    then have "lag_mat_gif_time plot_slice0 world0 ds0 ''lag_mat_gif'' ''lag_mat'' () =
        (fst run_lag_mat0, Inr r)"
      by (simp add: run_lag_mat0_def [symmetric] prod_eq_iff)
    from inst [THEN conjunct2, THEN conjunct2, THEN conjunct1, rule_format, OF this] r
    show ?thesis by simp
  qed
  have 4: "snd run_lag_network0 = Inr PyNone"
  proof -
    from run_lag_network0_eval obtain r where r: "snd run_lag_network0 = Inr r" by simp
    then have "lag_network_gif plot_slice0 world0 ds0 ''lag_network_gif'' ''lag_network'' () =
        (fst run_lag_network0, Inr r)"
      by (simp add: run_lag_network0_def [symmetric] prod_eq_iff)
    from inst [THEN conjunct2, THEN conjunct2, THEN conjunct2, THEN conjunct1, rule_format,
        OF this] r
    show ?thesis by simp
  qed
  have 5: "snd run_corr_thresh0 = Inr PyNone"
  proof -
    from run_corr_thresh0_eval obtain r where r: "snd run_corr_thresh0 = Inr r" by simp
    then have "corr_thresh_gif plot_slice0 world0 ds0 ''corr_thresh_gif'' ''corr_thresh'' () =
        (fst run_corr_thresh0, Inr r)"
      by (simp add: run_corr_thresh0_def [symmetric] prod_eq_iff)
    from inst [THEN conjunct2, THEN conjunct2, THEN conjunct2, THEN conjunct2,
        THEN conjunct1, rule_format, OF this] r
    show ?thesis by simp
  qed
  have 6: "snd run_cca_ang0 = Inr PyNone"
  proof -
    from run_cca_ang0_eval obtain r where r: "snd run_cca_ang0 = Inr r" by simp
    then have "cca_ang_gif plot_cca0 world0 ds0 CHR ''a'' ''cca_ang_gif'' ''cca_ang'' () =
        (fst run_cca_ang0, Inr r)"
      by (simp add: run_cca_ang0_def [symmetric] prod_eq_iff)
    from inst [THEN conjunct2, THEN conjunct2, THEN conjunct2, THEN conjunct2,
        THEN conjunct2, rule_format, OF this] r
    show ?thesis by simp
  qed
  from 1 2 3 4 5 6 show ?thesis by (intro conjI)
qed


end
